theory Spec2Isabelle
  imports Complex_Main "HOL-Library.Stream"
begin

section \<open>The synthetic OHLCV generator of \<open>tools/gen_synthetic.py\<close>\<close>

text \<open>
  The generator \<open>generate_ohlcv\<close> builds a list of daily bars by a sequential loop
  that threads one scalar, \<open>current_price\<close>, and the state of Python's global random
  generator from one iteration to the next.

  Conventions of the embedding:
  \<^item> Python floats are idealised as real numbers (no overflow to infinity, no NaN, no
    rounding error of the arithmetic itself);
  \<^item> Python's unbounded integers are \<open>int\<close>;
  \<^item> the state of the random generator is the infinite stream of standard normal
    variates it is going to deliver, so that \<open>random.gauss(mu, sigma)\<close> takes the head
    of the stream and leaves its tail;
  \<^item> a \<open>datetime\<close> at midnight is its proleptic Gregorian ordinal (day 1 is
    0001-01-01), and the date arithmetic raises \<open>OverflowError\<close> outside the
    supported range, as the standard library does.
\<close>

subsection \<open>Errors\<close>

datatype py_error = OverflowError

subsection \<open>The random source\<close>

type_synonym rng = "real stream"

text \<open>\<open>random.gauss(mu, sigma)\<close> returns \<open>mu + z * sigma\<close> for the next standard normal
  variate \<open>z\<close> of the generator, and advances the generator.\<close>

definition gauss :: "real \<Rightarrow> real \<Rightarrow> rng \<Rightarrow> real \<times> rng" where
  "gauss mu sigma g = (mu + shd g * sigma, stl g)"

subsection \<open>Built-ins: \<open>round(x, 2)\<close> and \<open>int(x)\<close>\<close>

text \<open>Python rounds to the nearest value and resolves an exact tie towards the even
  neighbour.\<close>

definition round_half_even :: "real \<Rightarrow> int" where
  "round_half_even x =
     (let f = \<lfloor>x\<rfloor>; d = x - of_int f
      in if d < 1 / 2 then f
         else if 1 / 2 < d then f + 1
         else if even f then f else f + 1)"

definition round2 :: "real \<Rightarrow> real" where
  "round2 x = of_int (round_half_even (x * 100)) / 100"

text \<open>\<open>int(x)\<close> on a float truncates towards zero.\<close>

definition py_int :: "real \<Rightarrow> int" where
  "py_int x = (if 0 \<le> x then \<lfloor>x\<rfloor> else \<lceil>x\<rceil>)"

subsection \<open>Calendar: \<open>datetime\<close>, \<open>timedelta\<close> and \<open>strftime\<close>\<close>

definition DAYS_IN_MONTH :: "int list" where
  "DAYS_IN_MONTH = [-1, 31, 28, 31, 30, 31, 30, 31, 31, 30, 31, 30, 31]"

definition DAYS_BEFORE_MONTH :: "int list" where
  "DAYS_BEFORE_MONTH = [-1, 0, 31, 59, 90, 120, 151, 181, 212, 243, 273, 304, 334]"

definition MAXORDINAL :: int where
  "MAXORDINAL = 3652059"

definition is_leap :: "int \<Rightarrow> bool" where
  "is_leap year \<longleftrightarrow> year mod 4 = 0 \<and> (year mod 100 \<noteq> 0 \<or> year mod 400 = 0)"

definition days_before_year :: "int \<Rightarrow> int" where
  "days_before_year year =
     (let y = year - 1 in y * 365 + y div 4 - y div 100 + y div 400)"

definition days_before_month :: "int \<Rightarrow> int \<Rightarrow> int" where
  "days_before_month year month =
     DAYS_BEFORE_MONTH ! nat month + (if 2 < month \<and> is_leap year then 1 else 0)"

definition ymd2ord :: "int \<Rightarrow> int \<Rightarrow> int \<Rightarrow> int" where
  "ymd2ord year month day =
     days_before_year year + days_before_month year month + day"

definition DI400Y :: int where "DI400Y = days_before_year 401"
definition DI100Y :: int where "DI100Y = days_before_year 101"
definition DI4Y :: int where "DI4Y = days_before_year 5"

definition ord2ymd :: "int \<Rightarrow> int \<times> int \<times> int" where
  "ord2ymd n0 =
     (let n = n0 - 1;
          n400 = n div DI400Y; n = n mod DI400Y;
          year = n400 * 400 + 1;
          n100 = n div DI100Y; n = n mod DI100Y;
          n4 = n div DI4Y; n = n mod DI4Y;
          n1 = n div 365; n = n mod 365;
          year = year + n100 * 100 + n4 * 4 + n1
      in if n1 = 4 \<or> n100 = 4 then (year - 1, 12, 31)
         else
           let leapyear = (n1 = 3 \<and> (n4 \<noteq> 24 \<or> n100 = 3));
               month = (n + 50) div 32;
               preceding = DAYS_BEFORE_MONTH ! nat month
                             + (if 2 < month \<and> leapyear then 1 else 0)
           in if n < preceding
              then let month' = month - 1;
                       preceding' = preceding
                         - (DAYS_IN_MONTH ! nat month'
                              + (if month' = 2 \<and> leapyear then 1 else 0))
                   in (year, month', n - preceding' + 1)
              else (year, month, n - preceding + 1))"

text \<open>\<open>timedelta(days=i)\<close> accepts at most 999999999 days in either direction.\<close>

definition timedelta :: "int \<Rightarrow> py_error + int" where
  "timedelta days =
     (if \<bar>days\<bar> \<le> 999999999 then Inr days else Inl OverflowError)"

text \<open>\<open>datetime + timedelta\<close>: the sum must be a date between 0001-01-01 and
  9999-12-31.\<close>

definition datetime_add :: "int \<Rightarrow> int \<Rightarrow> py_error + int" where
  "datetime_add d delta =
     (let ordinal = d + delta
      in if 0 < ordinal \<and> ordinal \<le> MAXORDINAL then Inr ordinal
         else Inl OverflowError)"

definition digit :: "int \<Rightarrow> char" where
  "digit d = ''0123456789'' ! nat d"

definition pad2 :: "int \<Rightarrow> string" where
  "pad2 n = [digit (n div 10 mod 10), digit (n mod 10)]"

definition pad4 :: "int \<Rightarrow> string" where
  "pad4 n = [digit (n div 1000 mod 10), digit (n div 100 mod 10),
             digit (n div 10 mod 10), digit (n mod 10)]"

text \<open>\<open>date.strftime("%Y-%m-%d")\<close>, for the years 1000 to 9999.\<close>

definition strftime :: "int \<Rightarrow> string" where
  "strftime d =
     (case ord2ymd d of (y, m, dd) \<Rightarrow> pad4 y @ ''-'' @ pad2 m @ ''-'' @ pad2 dd)"

subsection \<open>Bars and the loop state\<close>

record bar =
  Date :: string
  Open :: real
  High :: real
  Low :: real
  Close :: real
  Adj_Close :: real
  Volume :: int

record loop_state =
  data :: "bar list"
  current_price :: real
  random_state :: rng

text \<open>\<open>start_date = datetime(2020, 1, 1)\<close>\<close>

definition start_date :: int where
  "start_date = ymd2ord 2020 1 1"

subsection \<open>One iteration of the loop\<close>

text \<open>The body of \<open>for i in range(n_rows)\<close>: the statements in the order of the source,
  the four draws taken from the random state one after the other.\<close>

definition loop_body ::
  "real \<Rightarrow> real \<Rightarrow> int \<Rightarrow> loop_state \<Rightarrow> py_error + loop_state" where
  "loop_body volatility trend i s =
     (case timedelta i of
        Inl e \<Rightarrow> Inl e
      | Inr delta \<Rightarrow>
     (case datetime_add start_date delta of
        Inl e \<Rightarrow> Inl e
      | Inr date \<Rightarrow>
          let date_str = strftime date;
              (daily_return, g1) = gauss trend volatility (random_state s);
              (gap, g2) = gauss 0 (volatility * 0.2) g1;
              open_price = current_price s * (1 + gap);
              close_price = open_price * (1 + daily_return);
              (range_draw, g3) = gauss 0 (volatility * 0.5) g2;
              intraday_range = \<bar>range_draw\<bar>;
              high_price = max open_price close_price * (1 + intraday_range);
              low_price = min open_price close_price * (1 - intraday_range);
              (volume_draw, g4) = gauss 1000000 200000 g3;
              volume = py_int volume_draw
          in Inr \<lparr> data = data s @
                       [\<lparr> Date = date_str,
                          Open = round2 open_price,
                          High = round2 high_price,
                          Low = round2 low_price,
                          Close = round2 close_price,
                          Adj_Close = round2 close_price,
                          Volume = max volume 100000 \<rparr>],
                    current_price = close_price,
                    random_state = g4 \<rparr>))"

subsection \<open>The loop and the generator\<close>

text \<open>\<open>run_loop volatility trend s k\<close> is the state after the first \<open>k\<close> iterations
  (\<open>i = 0, \<dots>, k - 1\<close>) started in \<open>s\<close>; an exception raised by an iteration ends
  the loop and discards the bars built so far.\<close>

fun run_loop :: "real \<Rightarrow> real \<Rightarrow> loop_state \<Rightarrow> nat \<Rightarrow> py_error + loop_state" where
  "run_loop volatility trend s 0 = Inr s"
| "run_loop volatility trend s (Suc k) =
     (case run_loop volatility trend s k of
        Inl e \<Rightarrow> Inl e
      | Inr s' \<Rightarrow> loop_body volatility trend (int k) s')"

text \<open>\<open>range(n_rows)\<close> is empty for \<open>n_rows \<le> 0\<close>. The result is the list \<open>data\<close>
  together with the state in which the global random generator is left.\<close>

definition generate_ohlcv ::
  "int \<Rightarrow> real \<Rightarrow> real \<Rightarrow> real \<Rightarrow> rng \<Rightarrow> py_error + (bar list \<times> rng)" where
  "generate_ohlcv n_rows start_price volatility trend g =
     (case run_loop volatility trend
             \<lparr> data = [], current_price = start_price, random_state = g \<rparr>
             (nat n_rows) of
        Inl e \<Rightarrow> Inl e
      | Inr s \<Rightarrow> Inr (data s, random_state s))"

section \<open>Properties of the built-ins\<close>

lemma round_half_even_bounds:
  "\<lfloor>x\<rfloor> \<le> round_half_even x \<and> round_half_even x \<le> \<lfloor>x\<rfloor> + 1"
  by (simp add: round_half_even_def Let_def)

lemma round_half_even_floor_eq:
  assumes "x \<le> y" and "\<lfloor>x\<rfloor> = \<lfloor>y\<rfloor>"
  shows "round_half_even x \<le> round_half_even y"
proof -
  have "x - of_int \<lfloor>x\<rfloor> \<le> y - of_int \<lfloor>y\<rfloor>"
    using assms by simp
  then show ?thesis
    using assms(2) by (auto simp: round_half_even_def Let_def)
qed

lemma round_half_even_mono:
  assumes "x \<le> y"
  shows "round_half_even x \<le> round_half_even y"
proof (cases "\<lfloor>x\<rfloor> = \<lfloor>y\<rfloor>")
  case True
  with assms show ?thesis by (rule round_half_even_floor_eq)
next
  case False
  moreover have "\<lfloor>x\<rfloor> \<le> \<lfloor>y\<rfloor>" using assms by (rule floor_mono)
  ultimately have "\<lfloor>x\<rfloor> + 1 \<le> \<lfloor>y\<rfloor>" by simp
  then show ?thesis
    using round_half_even_bounds [of x] round_half_even_bounds [of y] by linarith
qed

lemma round2_mono: "x \<le> y \<Longrightarrow> round2 x \<le> round2 y"
  unfolding round2_def
  by (simp add: divide_right_mono round_half_even_mono)

lemma round2_zero: "round2 0 = 0"
  by (simp add: round2_def round_half_even_def)

lemma round2_nonneg: "0 \<le> x \<Longrightarrow> 0 \<le> round2 x"
  using round2_mono [of 0 x] by (simp add: round2_zero)

lemma start_date_eq: "start_date = 737425"
  by (simp add: start_date_def ymd2ord_def days_before_year_def days_before_month_def
      DAYS_BEFORE_MONTH_def is_leap_def)

text \<open>The facts that evaluate the generator on a concrete input.\<close>

lemmas eval_defs = generate_ohlcv_def loop_body_def timedelta_def datetime_add_def gauss_def
  start_date_eq MAXORDINAL_def Let_def round2_def round_half_even_def py_int_def
  strftime_def ord2ymd_def DI400Y_def DI100Y_def DI4Y_def days_before_year_def
  DAYS_BEFORE_MONTH_def DAYS_IN_MONTH_def pad2_def pad4_def digit_def

lemma strftime_start: "strftime 737425 = ''2020-01-01''"
  by (simp add: eval_defs)

section \<open>One iteration\<close>

text \<open>The last index for which the date still exists is 2914634: day 2914635 after
  2020-01-01 would be 10000-01-01.\<close>

lemma loop_body_eq:
  assumes "0 \<le> i" and "i \<le> 2914634"
  shows "loop_body volatility trend i s =
     Inr \<lparr> data = data s @
            [\<lparr> Date = strftime (start_date + i),
               Open = round2 (current_price s * (1 + shd (stl (random_state s)) * (volatility * 0.2))),
               High = round2 (max (current_price s * (1 + shd (stl (random_state s)) * (volatility * 0.2)))
                      (current_price s * (1 + shd (stl (random_state s)) * (volatility * 0.2))
                         * (1 + (trend + shd (random_state s) * volatility)))
                      * (1 + \<bar>shd (stl (stl (random_state s))) * (volatility * 0.5)\<bar>)),
               Low = round2 (min (current_price s * (1 + shd (stl (random_state s)) * (volatility * 0.2)))
                      (current_price s * (1 + shd (stl (random_state s)) * (volatility * 0.2))
                         * (1 + (trend + shd (random_state s) * volatility)))
                      * (1 - \<bar>shd (stl (stl (random_state s))) * (volatility * 0.5)\<bar>)),
               Close = round2 (current_price s * (1 + shd (stl (random_state s)) * (volatility * 0.2))
                         * (1 + (trend + shd (random_state s) * volatility))),
               Adj_Close = round2 (current_price s * (1 + shd (stl (random_state s)) * (volatility * 0.2))
                         * (1 + (trend + shd (random_state s) * volatility))),
               Volume = max (py_int (1000000 + shd (stl (stl (stl (random_state s)))) * 200000)) 100000 \<rparr>],
           current_price = current_price s * (1 + shd (stl (random_state s)) * (volatility * 0.2))
                         * (1 + (trend + shd (random_state s) * volatility)),
           random_state = stl (stl (stl (stl (random_state s)))) \<rparr>"
  using assms
  by (simp add: loop_body_def timedelta_def datetime_add_def Let_def gauss_def start_date_eq
      MAXORDINAL_def)

lemma loop_body_overflow:
  assumes "2914634 < i"
  shows "loop_body volatility trend i s = Inl OverflowError"
  using assms
  by (simp add: loop_body_def timedelta_def datetime_add_def Let_def start_date_eq
      MAXORDINAL_def)

lemma loop_body_random_state:
  "loop_body volatility trend i s = Inr s' \<Longrightarrow> random_state s' = sdrop 4 (random_state s)"
  by (auto simp: loop_body_def gauss_def Let_def numeral_eq_Suc
      split: sum.splits)

lemma loop_body_data:
  "loop_body volatility trend i s = Inr s' \<Longrightarrow> data s' = data s @ [last (data s')]"
  by (auto simp: loop_body_def gauss_def Let_def split: sum.splits)

lemma loop_body_volume:
  "loop_body volatility trend i s = Inr s' \<Longrightarrow> 100000 \<le> Volume (last (data s'))"
  by (auto simp: loop_body_def gauss_def Let_def split: sum.splits)

lemma loop_body_adj_close:
  "loop_body volatility trend i s = Inr s' \<Longrightarrow>
     Adj_Close (last (data s')) = Close (last (data s'))"
  by (auto simp: loop_body_def gauss_def Let_def split: sum.splits)

lemma loop_body_date:
  "loop_body volatility trend i s = Inr s' \<Longrightarrow>
     Date (last (data s')) = strftime (start_date + i)"
  by (auto simp: loop_body_def gauss_def Let_def timedelta_def datetime_add_def
      split: sum.splits if_splits)

lemma loop_body_current_price:
  assumes "loop_body volatility trend i s = Inr s'"
  shows "current_price s' =
           current_price s
             * (1 + fst (gauss 0 (volatility * 0.2) (sdrop 1 (random_state s))))
             * (1 + fst (gauss trend volatility (random_state s)))"
  using assms
  by (auto simp: loop_body_def gauss_def Let_def split: sum.splits)

lemma loop_body_open_close:
  assumes "loop_body volatility trend i s = Inr s'"
  shows "Open (last (data s')) =
           round2 (current_price s
             * (1 + fst (gauss 0 (volatility * 0.2) (snd (gauss trend volatility (random_state s))))))"
    and "Close (last (data s')) = round2 (current_price s')"
  using assms
  by (auto simp: loop_body_def gauss_def Let_def split: sum.splits)

text \<open>For non-negative prices and a non-negative range, rounding keeps the low below
  and the high above both the open and the close.\<close>

lemma ordering_aux:
  assumes "0 \<le> o_p" and "0 \<le> c_p" and "0 \<le> r"
  shows "round2 (min o_p c_p * (1 - r)) \<le> min (round2 o_p) (round2 c_p)"
    and "max (round2 o_p) (round2 c_p) \<le> round2 (max o_p c_p * (1 + r))"
proof -
  have m: "0 \<le> min o_p c_p" and M: "0 \<le> max o_p c_p" using assms by simp_all
  have "min o_p c_p * (1 - r) = min o_p c_p - min o_p c_p * r" by (simp add: algebra_simps)
  moreover have "0 \<le> min o_p c_p * r" using m assms(3) by (rule mult_nonneg_nonneg)
  ultimately have lo: "min o_p c_p * (1 - r) \<le> min o_p c_p" by linarith
  have "max o_p c_p * (1 + r) = max o_p c_p + max o_p c_p * r" by (simp add: algebra_simps)
  moreover have "0 \<le> max o_p c_p * r" using M assms(3) by (rule mult_nonneg_nonneg)
  ultimately have hi: "max o_p c_p \<le> max o_p c_p * (1 + r)" by linarith
  have "round2 (min o_p c_p * (1 - r)) \<le> round2 o_p"
    using lo by (intro round2_mono) linarith
  moreover have "round2 (min o_p c_p * (1 - r)) \<le> round2 c_p"
    using lo by (intro round2_mono) linarith
  ultimately show "round2 (min o_p c_p * (1 - r)) \<le> min (round2 o_p) (round2 c_p)"
    by simp
  have "round2 o_p \<le> round2 (max o_p c_p * (1 + r))"
    using hi by (intro round2_mono) linarith
  moreover have "round2 c_p \<le> round2 (max o_p c_p * (1 + r))"
    using hi by (intro round2_mono) linarith
  ultimately show "max (round2 o_p) (round2 c_p) \<le> round2 (max o_p c_p * (1 + r))"
    by simp
qed

lemma loop_body_ordered:
  assumes "loop_body volatility trend i s = Inr s'"
    and "0 \<le> current_price s"
    and "0 \<le> 1 + fst (gauss 0 (volatility * 0.2) (sdrop 1 (random_state s)))"
    and "0 \<le> 1 + fst (gauss trend volatility (random_state s))"
  shows "Low (last (data s')) \<le> min (Open (last (data s'))) (Close (last (data s')))"
    and "max (Open (last (data s'))) (Close (last (data s'))) \<le> High (last (data s'))"
proof -
  define o_p where "o_p = current_price s * (1 + shd (stl (random_state s)) * (volatility * 0.2))"
  define c_p where "c_p = o_p * (1 + (trend + shd (random_state s) * volatility))"
  define r where "r = \<bar>shd (stl (stl (random_state s))) * (volatility * 0.5)\<bar>"
  have o: "0 \<le> o_p" unfolding o_p_def
    using assms(2,3) by (intro mult_nonneg_nonneg) (simp_all add: gauss_def)
  have c: "0 \<le> c_p" unfolding c_p_def
    using o assms(4) by (intro mult_nonneg_nonneg) (simp_all add: gauss_def)
  have r: "0 \<le> r" by (simp add: r_def)
  have b: "Open (last (data s')) = round2 o_p" "Close (last (data s')) = round2 c_p"
    "Low (last (data s')) = round2 (min o_p c_p * (1 - r))"
    "High (last (data s')) = round2 (max o_p c_p * (1 + r))"
    using assms(1)
    by (auto simp: loop_body_def gauss_def Let_def o_p_def c_p_def r_def split: sum.splits)
  show "Low (last (data s')) \<le> min (Open (last (data s'))) (Close (last (data s')))"
    unfolding b by (rule ordering_aux(1) [OF o c r])
  show "max (Open (last (data s'))) (Close (last (data s'))) \<le> High (last (data s'))"
    unfolding b by (rule ordering_aux(2) [OF o c r])
qed

lemma loop_body_nonneg:
  assumes "loop_body volatility trend i s = Inr s'"
    and "0 \<le> current_price s"
    and "0 \<le> 1 + fst (gauss 0 (volatility * 0.2) (sdrop 1 (random_state s)))"
    and "0 \<le> 1 + fst (gauss trend volatility (random_state s))"
    and "\<bar>fst (gauss 0 (volatility * 0.5) (sdrop 2 (random_state s)))\<bar> \<le> 1"
  shows "0 \<le> Open (last (data s')) \<and> 0 \<le> High (last (data s'))
       \<and> 0 \<le> Low (last (data s')) \<and> 0 \<le> Close (last (data s'))"
proof -
  define o_p where "o_p = current_price s * (1 + shd (stl (random_state s)) * (volatility * 0.2))"
  define c_p where "c_p = o_p * (1 + (trend + shd (random_state s) * volatility))"
  define r where "r = \<bar>shd (stl (stl (random_state s))) * (volatility * 0.5)\<bar>"
  have o: "0 \<le> o_p" unfolding o_p_def
    using assms(2,3) by (intro mult_nonneg_nonneg) (simp_all add: gauss_def)
  have c: "0 \<le> c_p" unfolding c_p_def
    using o assms(4) by (intro mult_nonneg_nonneg) (simp_all add: gauss_def)
  have r: "0 \<le> r" by (simp add: r_def)
  have r1: "r \<le> 1" using assms(5) by (simp add: r_def gauss_def numeral_2_eq_2)
  have b: "Open (last (data s')) = round2 o_p" "Close (last (data s')) = round2 c_p"
    "Low (last (data s')) = round2 (min o_p c_p * (1 - r))"
    "High (last (data s')) = round2 (max o_p c_p * (1 + r))"
    using assms(1)
    by (auto simp: loop_body_def gauss_def Let_def o_p_def c_p_def r_def split: sum.splits)
  have "0 \<le> min o_p c_p * (1 - r)"
    using o c r1 by (intro mult_nonneg_nonneg) simp_all
  moreover have "0 \<le> max o_p c_p * (1 + r)"
    using o c r by (intro mult_nonneg_nonneg) simp_all
  ultimately show ?thesis
    unfolding b using o c by (simp add: round2_nonneg)
qed

text \<open>An iteration reads four variates only.\<close>

lemma stake_4_eq:
  assumes "stake 4 g = stake 4 h"
  shows "shd g = shd h" and "shd (stl g) = shd (stl h)"
    and "shd (stl (stl g)) = shd (stl (stl h))"
    and "shd (stl (stl (stl g))) = shd (stl (stl (stl h)))"
  using assms by (simp_all add: numeral_eq_Suc)

lemma loop_body_cong:
  assumes "data s = data t" and "current_price s = current_price t"
    and "stake 4 (random_state s) = stake 4 (random_state t)"
  shows "map_sum id (\<lambda>s. (data s, current_price s)) (loop_body volatility trend i s)
       = map_sum id (\<lambda>s. (data s, current_price s)) (loop_body volatility trend i t)"
  using assms stake_4_eq [OF assms(3)]
  by (simp add: loop_body_def gauss_def Let_def split: sum.splits)

section \<open>The loop\<close>

lemma run_loop_Suc_Inr:
  assumes "run_loop volatility trend s (Suc k) = Inr s''"
  obtains s' where "run_loop volatility trend s k = Inr s'"
    and "loop_body volatility trend (int k) s' = Inr s''"
  using assms by (auto split: sum.splits)

lemma run_loop_total:
  "k \<le> 2914635 \<Longrightarrow> \<exists>s'. run_loop volatility trend s k = Inr s'"
proof (induction k)
  case 0
  show ?case by simp
next
  case (Suc k)
  then obtain s' where s': "run_loop volatility trend s k = Inr s'" by auto
  have "int k \<le> 2914634" using Suc.prems by simp
  then have "\<exists>s''. loop_body volatility trend (int k) s' = Inr s''"
    using loop_body_eq [of "int k" volatility trend s'] by simp
  with s' show ?case by simp
qed

lemma run_loop_overflow:
  "2914635 < k \<Longrightarrow> run_loop volatility trend s k = Inl OverflowError"
proof (induction k)
  case 0
  then show ?case by simp
next
  case (Suc k)
  show ?case
  proof (cases "run_loop volatility trend s k")
    case (Inl e)
    then show ?thesis by (cases e) simp
  next
    case (Inr s')
    have "\<not> 2914635 < k" using Suc.IH Inr by auto
    with Suc.prems have "2914634 < int k" by simp
    then show ?thesis using Inr by (simp add: loop_body_overflow)
  qed
qed

lemma run_loop_random_state:
  "run_loop volatility trend s k = Inr s' \<Longrightarrow>
     random_state s' = sdrop (4 * k) (random_state s)"
proof (induction k arbitrary: s')
  case 0
  then show ?case by simp
next
  case (Suc k)
  from Suc.prems obtain t where t: "run_loop volatility trend s k = Inr t"
    and b: "loop_body volatility trend (int k) t = Inr s'"
    by (rule run_loop_Suc_Inr)
  have "random_state s' = sdrop 4 (sdrop (4 * k) (random_state s))"
    using loop_body_random_state [OF b] Suc.IH [OF t] by simp
  then show ?case by (simp add: add.commute)
qed

lemma run_loop_length:
  "run_loop volatility trend s k = Inr s' \<Longrightarrow> length (data s') = length (data s) + k"
proof (induction k arbitrary: s')
  case 0
  then show ?case by simp
next
  case (Suc k)
  from Suc.prems obtain t where t: "run_loop volatility trend s k = Inr t"
    and b: "loop_body volatility trend (int k) t = Inr s'"
    by (rule run_loop_Suc_Inr)
  have "length (data s') = Suc (length (data t))"
    using loop_body_data [OF b] by (metis length_append_singleton)
  then show ?case using Suc.IH [OF t] by simp
qed

text \<open>Bar number \<open>i\<close> of the final list is the bar appended by iteration \<open>i\<close>.\<close>

lemma run_loop_nth:
  assumes "run_loop volatility trend s k = Inr sk" and "i < k"
  obtains t t' where "run_loop volatility trend s i = Inr t"
    and "loop_body volatility trend (int i) t = Inr t'"
    and "data sk ! (length (data s) + i) = last (data t')"
  using assms
proof (induction k arbitrary: sk thesis)
  case 0
  then show ?case by simp
next
  case (Suc k)
  from Suc.prems(2) obtain u where u: "run_loop volatility trend s k = Inr u"
    and b: "loop_body volatility trend (int k) u = Inr sk"
    by (rule run_loop_Suc_Inr)
  have len: "length (data u) = length (data s) + k" by (rule run_loop_length [OF u])
  have dat: "data sk = data u @ [last (data sk)]" by (rule loop_body_data [OF b])
  show ?case
  proof (cases "i = k")
    case True
    have "data sk ! (length (data s) + i) = last (data sk)"
      using dat len True by (metis nth_append_length)
    then show ?thesis using Suc.prems(1) u b True by blast
  next
    case False
    then have ik: "i < k" using Suc.prems(3) by simp
    obtain t t' where t: "run_loop volatility trend s i = Inr t"
      and tb: "loop_body volatility trend (int i) t = Inr t'"
      and nth: "data u ! (length (data s) + i) = last (data t')"
      using Suc.IH [OF _ u ik] by blast
    have "data sk ! (length (data s) + i) = data u ! (length (data s) + i)"
      using dat len ik by (metis add_less_cancel_left nth_append)
    then show ?thesis using Suc.prems(1) t tb nth by simp
  qed
qed

text \<open>Iteration \<open>i\<close> takes the variates \<open>4 i\<close> (daily return), \<open>4 i + 1\<close> (gap),
  \<open>4 i + 2\<close> (intraday range) and \<open>4 i + 3\<close> (volume) of the initial random state.\<close>

lemma run_loop_current_price_nonneg:
  assumes "run_loop volatility trend s k = Inr sk"
    and "0 \<le> current_price s"
    and "\<forall>i<k. 0 \<le> 1 + fst (gauss 0 (volatility * 0.2) (sdrop (4 * i + 1) (random_state s)))
             \<and> 0 \<le> 1 + fst (gauss trend volatility (sdrop (4 * i) (random_state s)))"
  shows "0 \<le> current_price sk"
  using assms(1,3)
proof (induction k arbitrary: sk)
  case 0
  then show ?case using assms(2) by simp
next
  case (Suc k)
  from Suc.prems(1) obtain t where t: "run_loop volatility trend s k = Inr t"
    and b: "loop_body volatility trend (int k) t = Inr sk"
    by (rule run_loop_Suc_Inr)
  have cp: "0 \<le> current_price t" using Suc.IH [OF t] Suc.prems(2) by simp
  have rs: "random_state t = sdrop (4 * k) (random_state s)"
    by (rule run_loop_random_state [OF t])
  have "0 \<le> 1 + fst (gauss 0 (volatility * 0.2) (sdrop 1 (random_state t)))"
    and "0 \<le> 1 + fst (gauss trend volatility (random_state t))"
    using Suc.prems(2) rs by (simp_all add: add.commute)
  then have "0 \<le> current_price t
             * (1 + fst (gauss 0 (volatility * 0.2) (sdrop 1 (random_state t))))
             * (1 + fst (gauss trend volatility (random_state t)))"
    using cp by (intro mult_nonneg_nonneg)
  then show ?case using loop_body_current_price [OF b] by simp
qed

lemma run_loop_cong:
  assumes "data s = data t" and "current_price s = current_price t"
    and "stake (4 * k) (random_state s) = stake (4 * k) (random_state t)"
  shows "map_sum id (\<lambda>s. (data s, current_price s)) (run_loop volatility trend s k)
       = map_sum id (\<lambda>s. (data s, current_price s)) (run_loop volatility trend t k)"
  using assms(3)
proof (induction k)
  case 0
  then show ?case using assms(1,2) by simp
next
  case (Suc k)
  have "stake (4 * k) (random_state s) @ stake 4 (sdrop (4 * k) (random_state s))
      = stake (4 * k) (random_state t) @ stake 4 (sdrop (4 * k) (random_state t))"
    unfolding stake_add using Suc.prems by (simp add: add.commute)
  then have pre: "stake (4 * k) (random_state s) = stake (4 * k) (random_state t)"
    and nxt: "stake 4 (sdrop (4 * k) (random_state s)) = stake 4 (sdrop (4 * k) (random_state t))"
    by (simp_all del: stake_add)
  note IH = Suc.IH [OF pre]
  show ?case
  proof (cases "run_loop volatility trend s k")
    case (Inl e)
    then have "run_loop volatility trend t k = Inl e"
      using IH by (cases "run_loop volatility trend t k") simp_all
    with Inl show ?thesis by simp
  next
    case (Inr s')
    then obtain t' where t': "run_loop volatility trend t k = Inr t'"
      and eq: "data s' = data t'" "current_price s' = current_price t'"
      using IH by (cases "run_loop volatility trend t k") simp_all
    have st: "stake 4 (random_state s') = stake 4 (random_state t')"
      using nxt run_loop_random_state [OF Inr] run_loop_random_state [OF t'] by simp
    show ?thesis
      using Inr t' loop_body_cong [OF eq st, of volatility trend "int k"] by (simp add: id_def)
  qed
qed

section \<open>The generator\<close>

lemma generate_ohlcv_Inr:
  assumes "generate_ohlcv n_rows start_price volatility trend g = Inr (bars, g')"
  obtains s where
    "run_loop volatility trend
       \<lparr> data = [], current_price = start_price, random_state = g \<rparr> (nat n_rows) = Inr s"
    and "bars = data s" and "g' = random_state s"
  using assms by (auto simp: generate_ohlcv_def split: sum.splits)

text \<open>Every bar of the result was appended by an iteration of the loop.\<close>

lemma generate_ohlcv_bar:
  assumes "generate_ohlcv n_rows start_price volatility trend g = Inr (bars, g')"
    and "i < length bars"
  obtains t t' where
    "run_loop volatility trend
       \<lparr> data = [], current_price = start_price, random_state = g \<rparr> i = Inr t"
    and "loop_body volatility trend (int i) t = Inr t'"
    and "bars ! i = last (data t')"
    and "i < nat n_rows"
proof -
  let ?s0 = "\<lparr> data = [], current_price = start_price, random_state = g \<rparr>"
  from assms(1) obtain s where s: "run_loop volatility trend ?s0 (nat n_rows) = Inr s"
    and bars: "bars = data s"
    by (rule generate_ohlcv_Inr)
  have "length bars = nat n_rows"
    using run_loop_length [OF s] bars by simp
  with assms(2) have i: "i < nat n_rows" by simp
  obtain t t' where "run_loop volatility trend ?s0 i = Inr t"
    and "loop_body volatility trend (int i) t = Inr t'"
    and "data s ! (length (data ?s0) + i) = last (data t')"
    using run_loop_nth [OF s i] by blast
  then show ?thesis using that bars i by simp
qed

lemma generate_total:
  assumes "n_rows \<le> 2914635"
  shows "\<exists>bars g'. generate_ohlcv n_rows start_price volatility trend g = Inr (bars, g')
           \<and> length bars = nat n_rows"
proof -
  let ?s0 = "\<lparr> data = [], current_price = start_price, random_state = g \<rparr>"
  have "nat n_rows \<le> 2914635" using assms by simp
  then obtain s where s: "run_loop volatility trend ?s0 (nat n_rows) = Inr s"
    using run_loop_total by blast
  have "length (data s) = nat n_rows" using run_loop_length [OF s] by simp
  then show ?thesis using s by (simp add: generate_ohlcv_def)
qed

lemma generate_overflow:
  assumes "2914635 < n_rows"
  shows "generate_ohlcv n_rows start_price volatility trend g = Inl OverflowError"
proof -
  have "2914635 < nat n_rows" using assms by simp
  then show ?thesis by (simp add: generate_ohlcv_def run_loop_overflow)
qed

text \<open>A run with the default volatility and drift, all variates zero.\<close>

lemma default_run:
  "generate_ohlcv 1 100 (1/50) (1/10000) (sconst 0) =
     Inr ([\<lparr> Date = ''2020-01-01'', Open = 100, High = 10001/100, Low = 100,
              Close = 10001/100, Adj_Close = 10001/100, Volume = 1000000 \<rparr>], sconst 0)"
  by (simp add: eval_defs)

text \<open>The call leaves the random generator advanced by four variates per row.\<close>

lemma generate_ohlcv_random_state:
  assumes "generate_ohlcv n_rows start_price volatility trend g = Inr (bars, g')"
  shows "g' = sdrop (4 * nat n_rows) g"
proof -
  from assms obtain s where
    "run_loop volatility trend
       \<lparr> data = [], current_price = start_price, random_state = g \<rparr> (nat n_rows) = Inr s"
    and "g' = random_state s"
    by (rule generate_ohlcv_Inr)
  then show ?thesis using run_loop_random_state by fastforce
qed

text \<open>A run with volatility 0.02, no drift, all variates one.\<close>

lemma ones_run:
  "generate_ohlcv 1 100 (1/50) 0 (sconst 1) =
     Inr ([\<lparr> Date = ''2020-01-01'', Open = 1004/10, High = 10343/100, Low = 994/10,
              Close = 10241/100, Adj_Close = 10241/100, Volume = 1200000 \<rparr>], sconst 1)"
  by (simp add: eval_defs)

text \<open>Two iterations without noise, with a drift of 0.00004 per day.\<close>

lemma drift_run:
  "run_loop 0 (1/25000) \<lparr> data = [], current_price = 100, random_state = sconst 0 \<rparr>
       (Suc (Suc 0)) =
     Inr \<lparr> data = [\<lparr> Date = ''2020-01-01'', Open = 100, High = 100, Low = 100, Close = 100,
                     Adj_Close = 100, Volume = 1000000 \<rparr>,
                   \<lparr> Date = ''2020-01-02'', Open = 100, High = 10001/100, Low = 100,
                     Close = 10001/100, Adj_Close = 10001/100, Volume = 1000000 \<rparr>],
           current_price = 625050001/6250000, random_state = sconst 0 \<rparr>"
  by (simp add: eval_defs)

text \<open>Two rows at volatility 5: a harmless first row, then a gap variate of \<open>-2\<close>.\<close>

lemma two_row_run:
  "generate_ohlcv 2 100 5 0 (1 ## 1 ## 1 ## 1 ## 0 ## (-2) ## 1 ## 0 ## sconst 0) =
     Inr ([\<lparr> Date = ''2020-01-01'', Open = 200, High = 4200, Low = -300, Close = 1200,
              Adj_Close = 1200, Volume = 1200000 \<rparr>,
           \<lparr> Date = ''2020-01-02'', Open = -1200, High = -4200, Low = 1800, Close = -1200,
              Adj_Close = -1200, Volume = 1000000 \<rparr>], sconst 0)"
  by (simp add: eval_defs numeral_2_eq_2)

text \<open>The first of the two iterations of the drift run.\<close>

lemma drift_run_first:
  "run_loop 0 (1/25000) \<lparr> data = [], current_price = 100, random_state = sconst 0 \<rparr> (Suc 0) =
     Inr \<lparr> data = [\<lparr> Date = ''2020-01-01'', Open = 100, High = 100, Low = 100, Close = 100,
                     Adj_Close = 100, Volume = 1000000 \<rparr>],
           current_price = 25001/250, random_state = sconst 0 \<rparr>"
  by (simp add: eval_defs)

section \<open>Number and dates of the bars\<close>

text \<open>
  C2 (as amended). For every row count \<open>N\<close> with \<open>0 \<le> N \<le> 2914635\<close> the generator
  returns exactly \<open>N\<close> bars, and the date of bar \<open>i\<close> is the rendering of the day
  \<open>i\<close> days after the start date, so the dates advance by one calendar day per bar
  without gaps; for \<open>N = 0\<close> the list is empty and no error is raised.
\<close>

theorem generate_ohlcv_length_dates:
  assumes "0 \<le> N" and "N \<le> 2914635"
  shows "\<exists>bars g'. generate_ohlcv N start_price volatility trend g = Inr (bars, g')
           \<and> length bars = nat N
           \<and> map Date bars = map (\<lambda>i. strftime (start_date + int i)) [0..<nat N]"
proof -
  obtain bars g' where gen: "generate_ohlcv N start_price volatility trend g = Inr (bars, g')"
    and len: "length bars = nat N"
    using generate_total [OF assms(2)] by blast
  have "Date (bars ! i) = strftime (start_date + int i)" if lt: "i < length bars" for i
  proof -
    obtain t t' where "loop_body volatility trend (int i) t = Inr t'"
      and "bars ! i = last (data t')"
      using generate_ohlcv_bar [OF gen lt] by blast
    then show ?thesis using loop_body_date by simp
  qed
  then have "map Date bars = map (\<lambda>i. strftime (start_date + int i)) [0..<nat N]"
    using len by (auto simp: list_eq_iff_nth_eq)
  then show ?thesis using gen len by simp
qed

theorem generate_ohlcv_length_dates_witness:
  "(0::int) \<le> 0 \<and> (0::int) \<le> 2914635
   \<and> (\<exists>bars g'. generate_ohlcv 0 100 (1/50) (1/10000) (sconst 0) = Inr (bars, g')
         \<and> length bars = 0 \<and> map Date bars = [])"
  using generate_ohlcv_length_dates [of 0 100 "1/50" "1/10000" "sconst 0"] by simp

text \<open>The claim as written, for every non-negative row count, fails: the date of
  iteration 2914635 would lie after 9999-12-31, the date arithmetic raises and no list
  is returned.\<close>

theorem generate_ohlcv_length_dates_counterexample:
  "generate_ohlcv 2914636 100 (1/50) (1/10000) (sconst 0) = Inl OverflowError"
  by (rule generate_overflow) simp

text \<open>
  C10. The generator has no start-date parameter: whatever the inputs and the random
  source, the date of bar \<open>i\<close> of a returned list is 2020-01-01 plus \<open>i\<close> days, and the
  first bar is dated 2020-01-01.
\<close>

theorem generate_ohlcv_fixed_start_date:
  assumes "generate_ohlcv n_rows start_price volatility trend g = Inr (bars, g')"
    and "i < length bars"
  shows "Date (bars ! i) = strftime (ymd2ord 2020 1 1 + int i)
       \<and> Date (bars ! 0) = ''2020-01-01''"
proof -
  obtain t t' where "loop_body volatility trend (int i) t = Inr t'"
    and "bars ! i = last (data t')"
    using generate_ohlcv_bar [OF assms] by blast
  then have d: "Date (bars ! i) = strftime (start_date + int i)"
    using loop_body_date by simp
  have "0 < length bars" using assms(2) by (cases bars) auto
  then obtain u u' where "loop_body volatility trend (int 0) u = Inr u'"
    and "bars ! 0 = last (data u')"
    using generate_ohlcv_bar [OF assms(1)] by blast
  then have "Date (bars ! 0) = strftime (start_date + int 0)"
    using loop_body_date by simp
  then show ?thesis
    using d by (simp add: start_date_def [symmetric] start_date_eq strftime_start)
qed

theorem generate_ohlcv_fixed_start_date_witness:
  "generate_ohlcv 1 100 (1/50) (1/10000) (sconst 0) =
     Inr ([\<lparr> Date = ''2020-01-01'', Open = 100, High = 10001/100, Low = 100,
              Close = 10001/100, Adj_Close = 10001/100, Volume = 1000000 \<rparr>], sconst 0)
   \<and> (0::nat) < length [\<lparr> Date = ''2020-01-01'', Open = 100, High = 10001/100, Low = 100,
              Close = 10001/100, Adj_Close = 10001/100, Volume = (1000000::int) \<rparr>]
   \<and> ''2020-01-01'' = strftime (ymd2ord 2020 1 1 + int 0)"
  using generate_ohlcv_fixed_start_date [OF default_run, of 0] default_run by simp

section \<open>Invariants of every bar\<close>

text \<open>
  C7. The volume of every produced bar is an integer that is at least 100000, whatever
  the parameters and the random source.
\<close>

theorem volume_floor:
  assumes "generate_ohlcv n_rows start_price volatility trend g = Inr (bars, g')"
    and "b \<in> set bars"
  shows "100000 \<le> Volume b"
proof -
  from assms(2) obtain i where i: "i < length bars" and b: "b = bars ! i"
    by (auto simp: in_set_conv_nth)
  obtain t t' where "loop_body volatility trend (int i) t = Inr t'"
    and "bars ! i = last (data t')"
    using generate_ohlcv_bar [OF assms(1) i] by blast
  then show ?thesis using b loop_body_volume by simp
qed

theorem volume_floor_witness:
  "generate_ohlcv 1 100 (1/50) (1/10000) (sconst 0) =
     Inr ([\<lparr> Date = ''2020-01-01'', Open = 100, High = 10001/100, Low = 100,
              Close = 10001/100, Adj_Close = 10001/100, Volume = 1000000 \<rparr>], sconst 0)
   \<and> (100000::int) \<le> 1000000"
  using volume_floor [OF default_run] default_run by simp

text \<open>
  C8. In every produced bar the adjusted close equals the close, both being the
  two-decimal rounding of the same unrounded closing price.
\<close>

theorem adj_close_eq_close:
  assumes "generate_ohlcv n_rows start_price volatility trend g = Inr (bars, g')"
    and "b \<in> set bars"
  shows "Adj_Close b = Close b"
proof -
  from assms(2) obtain i where i: "i < length bars" and b: "b = bars ! i"
    by (auto simp: in_set_conv_nth)
  obtain t t' where "loop_body volatility trend (int i) t = Inr t'"
    and "bars ! i = last (data t')"
    using generate_ohlcv_bar [OF assms(1) i] by blast
  then show ?thesis using b loop_body_adj_close by simp
qed

theorem adj_close_eq_close_witness:
  "generate_ohlcv 1 100 (1/50) (1/10000) (sconst 0) =
     Inr ([\<lparr> Date = ''2020-01-01'', Open = 100, High = 10001/100, Low = 100,
              Close = 10001/100, Adj_Close = 10001/100, Volume = 1000000 \<rparr>], sconst 0)
   \<and> Adj_Close \<lparr> Date = ''2020-01-01'', Open = 100, High = 10001/100, Low = 100,
              Close = 10001/100, Adj_Close = 10001/100, Volume = (1000000::int) \<rparr>
     = Close \<lparr> Date = ''2020-01-01'', Open = 100, High = 10001/100, Low = 100,
              Close = 10001/100, Adj_Close = 10001/100, Volume = (1000000::int) \<rparr>"
  using adj_close_eq_close [OF default_run] default_run by simp

section \<open>The zero-volatility example\<close>

text \<open>
  C6. With three rows, start price 100, volatility 0 and drift 0, every price noise is
  0: each of the three bars has open, close, high, low and adjusted close 100.00, the
  dates are 2020-01-01, 2020-01-02 and 2020-01-03, and each volume is the truncated draw
  around 1000000 (the fourth variate of its iteration), raised to 100000 if below.
\<close>

theorem zero_volatility_example:
  "generate_ohlcv 3 100 0 0 g =
     Inr ([\<lparr> Date = ''2020-01-01'', Open = 100, High = 100, Low = 100, Close = 100,
              Adj_Close = 100,
              Volume = max (py_int (fst (gauss 1000000 200000 (sdrop 3 g)))) 100000 \<rparr>,
           \<lparr> Date = ''2020-01-02'', Open = 100, High = 100, Low = 100, Close = 100,
              Adj_Close = 100,
              Volume = max (py_int (fst (gauss 1000000 200000 (sdrop 7 g)))) 100000 \<rparr>,
           \<lparr> Date = ''2020-01-03'', Open = 100, High = 100, Low = 100, Close = 100,
              Adj_Close = 100,
              Volume = max (py_int (fst (gauss 1000000 200000 (sdrop 11 g)))) 100000 \<rparr>],
          sdrop 12 g)"
proof -
  have r: "round2 100 = 100" by (simp add: round2_def round_half_even_def)
  have d0: "strftime 737425 = ''2020-01-01''" by (simp add: eval_defs)
  have d1: "strftime 737426 = ''2020-01-02''" by (simp add: eval_defs)
  have d2: "strftime 737427 = ''2020-01-03''" by (simp add: eval_defs)
  show ?thesis
    by (simp add: generate_ohlcv_def numeral_eq_Suc loop_body_eq start_date_eq r d0 d1 d2
        gauss_def)
qed

section \<open>Ordering and sign of the prices\<close>

text \<open>
  C1 (as amended). When the start price is non-negative and, in every iteration up to
  and including that of bar \<open>j\<close>, the gap factor \<open>1 + gap\<close> and the return factor
  \<open>1 + daily_return\<close> are non-negative (so that the unrounded open and close of bar \<open>j\<close>
  are non-negative), bar \<open>j\<close> satisfies, on its rounded prices,
  \<open>low \<le> min(open, close)\<close> and \<open>max(open, close) \<le> high\<close>, for every volatility,
  every intraday range and whatever is drawn in later iterations.
\<close>

theorem price_ordering:
  assumes "generate_ohlcv n_rows start_price volatility trend g = Inr (bars, g')"
    and "0 \<le> start_price"
    and "j < length bars"
    and "\<forall>i\<le>j.
           0 \<le> 1 + fst (gauss 0 (volatility * 0.2) (sdrop (4 * i + 1) g))
         \<and> 0 \<le> 1 + fst (gauss trend volatility (sdrop (4 * i) g))"
  shows "Low (bars ! j) \<le> min (Open (bars ! j)) (Close (bars ! j))
       \<and> max (Open (bars ! j)) (Close (bars ! j)) \<le> High (bars ! j)"
proof -
  let ?s0 = "\<lparr> data = [], current_price = start_price, random_state = g \<rparr>"
  obtain t t' where t: "run_loop volatility trend ?s0 j = Inr t"
    and body: "loop_body volatility trend (int j) t = Inr t'"
    and nth: "bars ! j = last (data t')"
    using generate_ohlcv_bar [OF assms(1,3)] by blast
  have rs: "random_state t = sdrop (4 * j) g"
    using run_loop_random_state [OF t] by simp
  have cp: "0 \<le> current_price t"
    using assms(2,4) by (intro run_loop_current_price_nonneg [OF t]) simp_all
  have gap: "0 \<le> 1 + fst (gauss 0 (volatility * 0.2) (sdrop 1 (random_state t)))"
    and ret: "0 \<le> 1 + fst (gauss trend volatility (random_state t))"
    using assms(4) rs by (simp_all add: add.commute)
  show ?thesis
    using loop_body_ordered [OF body cp gap ret] nth by simp
qed

theorem price_ordering_witness:
  "generate_ohlcv 2 100 5 0 (1 ## 1 ## 1 ## 1 ## 0 ## (-2) ## 1 ## 0 ## sconst 0) =
     Inr ([\<lparr> Date = ''2020-01-01'', Open = 200, High = 4200, Low = -300, Close = 1200,
              Adj_Close = 1200, Volume = 1200000 \<rparr>,
           \<lparr> Date = ''2020-01-02'', Open = -1200, High = -4200, Low = 1800, Close = -1200,
              Adj_Close = -1200, Volume = 1000000 \<rparr>], sconst 0)
   \<and> (0::real) \<le> 100
   \<and> 0 \<le> 1 + fst (gauss 0 (5 * 0.2)
                 (sdrop (4 * 0 + 1) (1 ## 1 ## 1 ## 1 ## 0 ## (-2) ## 1 ## 0 ## sconst 0)))
   \<and> 0 \<le> 1 + fst (gauss 0 5
                 (sdrop (4 * 0) (1 ## 1 ## 1 ## 1 ## 0 ## (-2) ## 1 ## 0 ## sconst 0)))
   \<and> \<not> 0 \<le> 1 + fst (gauss 0 (5 * 0.2)
                 (sdrop (4 * 1 + 1) (1 ## 1 ## 1 ## 1 ## 0 ## (-2) ## 1 ## 0 ## sconst 0)))
   \<and> (-300::real) \<le> min 200 1200 \<and> max 200 1200 \<le> (4200::real)"
proof -
  have h: "\<forall>i\<le>0. 0 \<le> 1 + fst (gauss 0 (5 * 0.2)
                 (sdrop (4 * i + 1) (1 ## 1 ## 1 ## 1 ## 0 ## (-2) ## 1 ## 0 ## sconst 0)))
         \<and> 0 \<le> 1 + fst (gauss 0 5
                 (sdrop (4 * i) (1 ## 1 ## 1 ## 1 ## 0 ## (-2) ## 1 ## 0 ## sconst 0)))"
    by (simp add: gauss_def)
  show ?thesis
    using price_ordering [OF two_row_run _ _ h] two_row_run h
    by (simp add: gauss_def numeral_eq_Suc)
qed

text \<open>The claim as written, for any seed and a volatility of 5.0, fails: a gap variate
  of \<open>-2\<close> gives the gap \<open>-2\<close> and the open \<open>-100\<close>, and the range 2.5 then puts the
  high at \<open>-350\<close>, below the open, the close and the low of 150.\<close>

theorem price_ordering_counterexample:
  "generate_ohlcv 1 100 5 0 (0 ## (-2) ## 1 ## 0 ## sconst 0) =
     Inr ([\<lparr> Date = ''2020-01-01'', Open = -100, High = -350, Low = 150, Close = -100,
              Adj_Close = -100, Volume = 1000000 \<rparr>], sconst 0)
   \<and> (-350::real) < 150"
  by (simp add: eval_defs)

text \<open>
  C4 (as amended). When the start price is non-negative and, in every iteration, the
  gap factor and the return factor are non-negative and the intraday range is at most 1,
  the open, high, low and close of every produced bar are non-negative. They need not
  be positive: the two-decimal rounding of a positive price below 0.005 is 0.00.
\<close>

theorem prices_nonnegative:
  assumes "generate_ohlcv n_rows start_price volatility trend g = Inr (bars, g')"
    and "0 \<le> start_price"
    and "\<forall>i<nat n_rows.
           0 \<le> 1 + fst (gauss 0 (volatility * 0.2) (sdrop (4 * i + 1) g))
         \<and> 0 \<le> 1 + fst (gauss trend volatility (sdrop (4 * i) g))
         \<and> \<bar>fst (gauss 0 (volatility * 0.5) (sdrop (4 * i + 2) g))\<bar> \<le> 1"
    and "b \<in> set bars"
  shows "0 \<le> Open b \<and> 0 \<le> High b \<and> 0 \<le> Low b \<and> 0 \<le> Close b"
proof -
  let ?s0 = "\<lparr> data = [], current_price = start_price, random_state = g \<rparr>"
  from assms(4) obtain i where i: "i < length bars" and b: "b = bars ! i"
    by (auto simp: in_set_conv_nth)
  obtain t t' where t: "run_loop volatility trend ?s0 i = Inr t"
    and body: "loop_body volatility trend (int i) t = Inr t'"
    and nth: "bars ! i = last (data t')"
    and lt: "i < nat n_rows"
    using generate_ohlcv_bar [OF assms(1) i] by blast
  have rs: "random_state t = sdrop (4 * i) g"
    using run_loop_random_state [OF t] by simp
  have cp: "0 \<le> current_price t"
    using assms(2,3) lt by (intro run_loop_current_price_nonneg [OF t]) simp_all
  have gap: "0 \<le> 1 + fst (gauss 0 (volatility * 0.2) (sdrop 1 (random_state t)))"
    and ret: "0 \<le> 1 + fst (gauss trend volatility (random_state t))"
    and rng: "\<bar>fst (gauss 0 (volatility * 0.5) (sdrop 2 (random_state t)))\<bar> \<le> 1"
    using assms(3) lt rs by (simp_all add: add.commute)
  show ?thesis
    using loop_body_nonneg [OF body cp gap ret rng] b nth by simp
qed

theorem prices_nonnegative_witness:
  "generate_ohlcv 1 100 (1/50) 0 (sconst 1) =
     Inr ([\<lparr> Date = ''2020-01-01'', Open = 1004/10, High = 10343/100, Low = 994/10,
              Close = 10241/100, Adj_Close = 10241/100, Volume = 1200000 \<rparr>], sconst 1)
   \<and> (0::real) \<le> 100
   \<and> 0 \<le> 1 + fst (gauss 0 (1/50 * 0.2) (sdrop (4 * 0 + 1) (sconst 1)))
   \<and> 0 \<le> 1 + fst (gauss 0 (1/50) (sdrop (4 * 0) (sconst 1)))
   \<and> \<bar>fst (gauss 0 (1/50 * 0.5) (sdrop (4 * 0 + 2) (sconst 1)))\<bar> \<le> 1
   \<and> (0::real) \<le> 1004/10 \<and> (0::real) \<le> 10343/100
   \<and> (0::real) \<le> 994/10 \<and> (0::real) \<le> 10241/100"
proof -
  have h: "\<forall>i<nat 1. 0 \<le> 1 + fst (gauss 0 (1/50 * 0.2) (sdrop (4 * i + 1) (sconst 1)))
         \<and> 0 \<le> 1 + fst (gauss 0 (1/50) (sdrop (4 * i) (sconst 1)))
         \<and> \<bar>fst (gauss 0 (1/50 * 0.5) (sdrop (4 * i + 2) (sconst 1)))\<bar> \<le> 1"
    by (simp add: gauss_def)
  show ?thesis
    using prices_nonnegative [OF ones_run _ h] ones_run h by (simp add: gauss_def)
qed

text \<open>The claim as written, for a positive start price and all values of the draws,
  fails: with start price 100 and volatility 5.0 a gap variate of \<open>-2\<close> makes all four
  prices \<open>-100\<close>; and with the positive start price 0.004 and no noise all four
  prices are emitted as 0.00.\<close>

theorem prices_positive_counterexample:
  "generate_ohlcv 1 100 5 0 (0 ## (-2) ## 0 ## 0 ## sconst 0) =
     Inr ([\<lparr> Date = ''2020-01-01'', Open = -100, High = -100, Low = -100, Close = -100,
              Adj_Close = -100, Volume = 1000000 \<rparr>], sconst 0)
   \<and> generate_ohlcv 1 (1/250) 0 0 (sconst 0) =
     Inr ([\<lparr> Date = ''2020-01-01'', Open = 0, High = 0, Low = 0, Close = 0,
              Adj_Close = 0, Volume = 1000000 \<rparr>], sconst 0)"
  by (simp add: eval_defs)

section \<open>The state carried between iterations\<close>

text \<open>
  C3 (as amended). The state carried between iterations is the unrounded close: after
  iteration \<open>i\<close> the current price is the previous current price times the gap factor
  times the return factor of that iteration, with no rounding; the close of bar \<open>i\<close>
  is the two-decimal rounding of it, and the open of bar \<open>i + 1\<close> is the rounding of
  that unrounded price times one plus the gap drawn in iteration \<open>i + 1\<close>.
\<close>

theorem carried_price_unrounded:
  assumes "run_loop volatility trend s0 (Suc (Suc i)) = Inr s2"
  shows "\<exists>t s1. run_loop volatility trend s0 i = Inr t
           \<and> run_loop volatility trend s0 (Suc i) = Inr s1
           \<and> data s2 = data s1 @ [last (data s2)]
           \<and> current_price s1 =
               current_price t
                 * (1 + fst (gauss 0 (volatility * 0.2)
                               (snd (gauss trend volatility (random_state t)))))
                 * (1 + fst (gauss trend volatility (random_state t)))
           \<and> Close (last (data s1)) = round2 (current_price s1)
           \<and> Open (last (data s2)) =
               round2 (current_price s1
                 * (1 + fst (gauss 0 (volatility * 0.2)
                               (snd (gauss trend volatility (random_state s1))))))"
proof -
  from assms obtain s1 where s1: "run_loop volatility trend s0 (Suc i) = Inr s1"
    and b2: "loop_body volatility trend (int (Suc i)) s1 = Inr s2"
    by (rule run_loop_Suc_Inr)
  from s1 obtain t where t: "run_loop volatility trend s0 i = Inr t"
    and b1: "loop_body volatility trend (int i) t = Inr s1"
    by (rule run_loop_Suc_Inr)
  have cp: "current_price s1 =
               current_price t
                 * (1 + fst (gauss 0 (volatility * 0.2)
                               (snd (gauss trend volatility (random_state t)))))
                 * (1 + fst (gauss trend volatility (random_state t)))"
    using loop_body_current_price [OF b1] by (simp add: gauss_def)
  show ?thesis
    using t s1 cp loop_body_data [OF b2] loop_body_open_close(2) [OF b1]
      loop_body_open_close(1) [OF b2]
    by blast
qed

theorem carried_price_unrounded_witness:
  "run_loop 0 (1/25000) \<lparr> data = [], current_price = 100, random_state = sconst 0 \<rparr>
       (Suc (Suc 0)) =
     Inr \<lparr> data = [\<lparr> Date = ''2020-01-01'', Open = 100, High = 100, Low = 100, Close = 100,
                     Adj_Close = 100, Volume = 1000000 \<rparr>,
                   \<lparr> Date = ''2020-01-02'', Open = 100, High = 10001/100, Low = 100,
                     Close = 10001/100, Adj_Close = 10001/100, Volume = 1000000 \<rparr>],
           current_price = 625050001/6250000, random_state = sconst 0 \<rparr>
   \<and> (\<exists>s1. run_loop 0 (1/25000)
               \<lparr> data = [], current_price = 100, random_state = sconst 0 \<rparr> (Suc 0) = Inr s1
          \<and> current_price s1 = 25001/250
          \<and> current_price s1 \<noteq> round2 (current_price s1)
          \<and> Close (last (data s1)) = 100
          \<and> (100::real) =
               round2 (current_price s1
                 * (1 + fst (gauss 0 (0 * 0.2) (snd (gauss (1/25000) 0 (random_state s1)))))))"
proof -
  obtain t s1 where
    t: "run_loop 0 (1/25000)
          \<lparr> data = [], current_price = 100, random_state = sconst 0 \<rparr> 0 = Inr t"
    and s1: "run_loop 0 (1/25000)
          \<lparr> data = [], current_price = 100, random_state = sconst 0 \<rparr> (Suc 0) = Inr s1"
    and cp: "current_price s1 =
               current_price t
                 * (1 + fst (gauss 0 (0 * 0.2) (snd (gauss (1/25000) 0 (random_state t)))))
                 * (1 + fst (gauss (1/25000) 0 (random_state t)))"
    using carried_price_unrounded [OF drift_run] by blast
  have "current_price s1 = 25001/250"
    using t cp by (auto simp: gauss_def)
  then show ?thesis
    using s1 drift_run_first drift_run
    by (auto simp del: run_loop.simps simp: gauss_def round2_def round_half_even_def)
qed

text \<open>The claim as written, that the current price is set to the rounded close, fails:
  after the first iteration of this run the current price is 100.004 while the close
  of the bar is 100.00.\<close>

theorem carried_price_counterexample:
  "run_loop 0 (1/25000) \<lparr> data = [], current_price = 100, random_state = sconst 0 \<rparr> (Suc 0) =
     Inr \<lparr> data = [\<lparr> Date = ''2020-01-01'', Open = 100, High = 100, Low = 100, Close = 100,
                     Adj_Close = 100, Volume = 1000000 \<rparr>],
           current_price = 25001/250, random_state = sconst 0 \<rparr>
   \<and> (25001/250::real) \<noteq> 100"
  by (simp add: eval_defs)

section \<open>Parameters are not validated\<close>

text \<open>
  C5 (as amended). The generator validates nothing and has no invalid-parameter
  failure: a row count of zero or below returns the empty list and leaves the random
  state untouched, and for every row count up to 2914635 and every start price,
  volatility and drift, positive or not, the call returns the list of bars.
\<close>

theorem no_parameter_validation:
  "(n_rows \<le> 0 \<longrightarrow> generate_ohlcv n_rows start_price volatility trend g = Inr ([], g))
   \<and> (n_rows \<le> 2914635 \<longrightarrow>
        (\<exists>bars g'. generate_ohlcv n_rows start_price volatility trend g = Inr (bars, g')
           \<and> length bars = nat n_rows))"
  using generate_total [of n_rows start_price volatility trend g]
  by (simp add: generate_ohlcv_def)

theorem no_parameter_validation_witness:
  "(-1::int) \<le> 0 \<and> (-1::int) \<le> 2914635
   \<and> generate_ohlcv (-1) (-5) (1/50) (1/10000) (sconst 0) = Inr ([], sconst 0)
   \<and> (\<exists>bars g'. generate_ohlcv (-1) (-5) (1/50) (1/10000) (sconst 0) = Inr (bars, g')
          \<and> length bars = nat (-1))"
  using no_parameter_validation [of "-1" "-5" "1/50" "1/10000" "sconst 0"] by simp

text \<open>The claim as written, that a non-positive row count or start price is rejected,
  fails: a row count of \<open>-1\<close> returns the empty list, and a start price of \<open>-5\<close>
  returns a bar with negative prices.\<close>

theorem no_parameter_validation_counterexample:
  "generate_ohlcv (-1) 100 (1/50) (1/10000) (sconst 0) = Inr ([], sconst 0)
   \<and> generate_ohlcv 1 (-5) 0 0 (sconst 0) =
     Inr ([\<lparr> Date = ''2020-01-01'', Open = -5, High = -5, Low = -5, Close = -5,
              Adj_Close = -5, Volume = 1000000 \<rparr>], sconst 0)"
  by (simp add: eval_defs)

section \<open>Determinism\<close>

text \<open>
  C9 (as amended). Generation is deterministic in the random state: two invocations
  with the same parameters whose random sources deliver the same first \<open>4 * n_rows\<close>
  variates (in particular, two invocations from the same random state) return the same
  bars, or fail alike. It is not free of side effects: a call that returns leaves the
  random generator advanced by exactly \<open>4 * n_rows\<close> variates.
\<close>

theorem generate_ohlcv_deterministic:
  assumes "stake (4 * nat n_rows) g = stake (4 * nat n_rows) g'"
  shows "map_sum id fst (generate_ohlcv n_rows start_price volatility trend g)
       = map_sum id fst (generate_ohlcv n_rows start_price volatility trend g')
     \<and> map_sum id snd (generate_ohlcv n_rows start_price volatility trend g)
       = map_sum id (\<lambda>r. sdrop (4 * nat n_rows) g)
           (generate_ohlcv n_rows start_price volatility trend g)"
proof -
  let ?s = "\<lparr> data = [], current_price = start_price, random_state = g \<rparr>"
  let ?t = "\<lparr> data = [], current_price = start_price, random_state = g' \<rparr>"
  have "map_sum id (\<lambda>s. (data s, current_price s)) (run_loop volatility trend ?s (nat n_rows))
      = map_sum id (\<lambda>s. (data s, current_price s)) (run_loop volatility trend ?t (nat n_rows))"
    using assms by (intro run_loop_cong) simp_all
  then have bars: "map_sum id fst (generate_ohlcv n_rows start_price volatility trend g)
       = map_sum id fst (generate_ohlcv n_rows start_price volatility trend g')"
    by (cases "run_loop volatility trend ?s (nat n_rows)";
        cases "run_loop volatility trend ?t (nat n_rows)")
       (simp_all add: generate_ohlcv_def)
  have "map_sum id snd (generate_ohlcv n_rows start_price volatility trend g)
       = map_sum id (\<lambda>r. sdrop (4 * nat n_rows) g)
           (generate_ohlcv n_rows start_price volatility trend g)"
  proof (cases "generate_ohlcv n_rows start_price volatility trend g")
    case (Inl e)
    then show ?thesis by simp
  next
    case (Inr r)
    then have "generate_ohlcv n_rows start_price volatility trend g = Inr (fst r, snd r)"
      by simp
    then have "snd r = sdrop (4 * nat n_rows) g" by (rule generate_ohlcv_random_state)
    then show ?thesis using Inr by simp
  qed
  with bars show ?thesis by simp
qed

theorem generate_ohlcv_deterministic_witness:
  "stake (4 * nat 1) (0 ## 0 ## 0 ## 0 ## sconst (1::real))
     = stake (4 * nat 1) (0 ## 0 ## 0 ## 0 ## sconst 2)
   \<and> map_sum id fst (generate_ohlcv 1 100 (1/50) (1/10000) (0 ## 0 ## 0 ## 0 ## sconst 1))
       = map_sum id fst (generate_ohlcv 1 100 (1/50) (1/10000) (0 ## 0 ## 0 ## 0 ## sconst 2))
   \<and> map_sum id snd (generate_ohlcv 1 100 (1/50) (1/10000) (0 ## 0 ## 0 ## 0 ## sconst 1))
       = Inr (sconst 1)"
proof -
  have h: "stake (4 * nat 1) (0 ## 0 ## 0 ## 0 ## sconst (1::real))
         = stake (4 * nat 1) (0 ## 0 ## 0 ## 0 ## sconst 2)"
    by (simp add: numeral_eq_Suc)
  have e: "generate_ohlcv 1 100 (1/50) (1/10000) (0 ## 0 ## 0 ## 0 ## sconst 1) =
     Inr ([\<lparr> Date = ''2020-01-01'', Open = 100, High = 10001/100, Low = 100,
              Close = 10001/100, Adj_Close = 10001/100, Volume = 1000000 \<rparr>], sconst 1)"
    by (simp add: eval_defs)
  show ?thesis
    using h generate_ohlcv_deterministic [OF h, of 100 "1/50" "1/10000"] e by simp
qed

text \<open>The claim as written, that generation is free of side effects, fails: the call
  below leaves the random generator in another state than it found it, and the same
  call repeated from the state it left returns other prices.\<close>

theorem side_effect_counterexample:
  "generate_ohlcv 1 100 (1/50) (1/10000) (0 ## 0 ## 0 ## 0 ## sconst 1) =
     Inr ([\<lparr> Date = ''2020-01-01'', Open = 100, High = 10001/100, Low = 100,
              Close = 10001/100, Adj_Close = 10001/100, Volume = 1000000 \<rparr>], sconst 1)
   \<and> shd (0 ## 0 ## 0 ## 0 ## sconst (1::real)) \<noteq> shd (sconst 1)
   \<and> generate_ohlcv 1 100 (1/50) (1/10000) (sconst 1) =
     Inr ([\<lparr> Date = ''2020-01-01'', Open = 1004/10, High = 10344/100, Low = 994/10,
              Close = 10242/100, Adj_Close = 10242/100, Volume = 1200000 \<rparr>], sconst 1)"
  by (simp add: eval_defs)

end
